theory Spec2Isabelle
  imports Main "HOL-Library.Word"
begin

section \<open>Formatted-message converter (src/libxml/utility.cxx)\<close>

text \<open>
  Bytes are \<^typ>\<open>char\<close>, C strings and \<open>std::string\<close> values are \<^typ>\<open>string\<close>.
  The variable-argument list is a list of typed arguments.
\<close>

datatype fmt_arg = Arg_string string | Arg_char char | Arg_int int

definition NUL :: char where
  "NUL = CHR 0x00"

definition newline :: char where
  "newline = CHR 0x0A"

text \<open>
  The bytes a conversion run produces for a format string and its arguments, or \<open>None\<close>
  when formatting reports an error. The formatter belongs to the C library, so the
  converter takes it as a parameter.
\<close>

type_synonym formatter = "string \<Rightarrow> fmt_arg list \<Rightarrow> string option"

text \<open>A C string ends before its first NUL byte.\<close>

definition c_string :: "string \<Rightarrow> string" where
  "c_string bs = takeWhile (\<lambda>c. c \<noteq> NUL) bs"

text \<open>
  \<open>vsnprintf(buffer, n, message, ap)\<close> with the C99 contract: at most \<open>n - 1\<close> bytes of
  the output are stored, followed by a NUL byte; the return value is the length of the
  whole output, or negative on an error. The rest of the buffer keeps its old bytes.
  (Under MSVC the source maps the name to \<open>_vsnprintf\<close>, which differs on truncation;
  that build is not modelled.)
\<close>

definition vsnprintf :: "formatter \<Rightarrow> string \<Rightarrow> nat \<Rightarrow> string \<Rightarrow> fmt_arg list \<Rightarrow> string \<times> int" where
  "vsnprintf fmt buffer n message ap =
     (case fmt message ap of
        None \<Rightarrow> (buffer, - 1)
      | Some out \<Rightarrow>
          (if n = 0 then (buffer, int (length out))
           else (let w = take (n - 1) out
                 in (w @ [NUL] @ drop (length w + 1) buffer, int (length out)))))"

datatype fault = Out_of_bounds_read nat

text \<open>\<open>std::strlen\<close>: scans for the first NUL byte; without one the scan leaves the array.\<close>

definition strlen :: "string \<Rightarrow> fault + 64 word" where
  "strlen buffer =
     (if NUL \<in> set buffer then Inr (word_of_nat (length (c_string buffer)))
      else Inl (Out_of_bounds_read (length buffer)))"

text \<open>\<open>buffer[i]\<close> for an index of type \<open>size_type\<close>.\<close>

definition buffer_at :: "string \<Rightarrow> 64 word \<Rightarrow> fault + char" where
  "buffer_at buffer i =
     (if unat i < length buffer then Inr (buffer ! unat i)
      else Inl (Out_of_bounds_read (unat i)))"

text \<open>\<open>s.assign(buffer, size)\<close>: the first \<open>size\<close> bytes of the array become the string.\<close>

definition assign :: "string \<Rightarrow> 64 word \<Rightarrow> fault + string" where
  "assign buffer n =
     (if unat n \<le> length buffer then Inr (take (unat n) buffer)
      else Inl (Out_of_bounds_read (length buffer)))"

text \<open>
  \<open>printf2string(s, message, ap)\<close>. The result is the new value of \<open>s\<close>, or the fault of
  the first read outside the 512-byte array.
\<close>

definition printf2string :: "formatter \<Rightarrow> string \<Rightarrow> string \<Rightarrow> fmt_arg list \<Rightarrow> fault + string" where
  "printf2string fmt s message ap =
     (let buffer0 = replicate 512 NUL;
          (buffer, ret) = vsnprintf fmt buffer0 (length buffer0) message ap
      in if ret > 0 then
           (case strlen buffer of
              Inl f \<Rightarrow> Inl f
            | Inr sz \<Rightarrow>
                (case buffer_at buffer (sz - 1) of
                   Inl f \<Rightarrow> Inl f
                 | Inr c \<Rightarrow> assign buffer (if c = newline then sz - 1 else sz)))
         else Inr s)"

text \<open>
  A formatter for the conversions \<open>%%\<close>, \<open>%s\<close>, \<open>%c\<close> and \<open>%d\<close> without flags, used to
  run the converter on concrete messages. A conversion outside this subset, or one whose
  argument is missing or of the wrong type, gives \<open>None\<close>.
\<close>

fun digits :: "nat \<Rightarrow> string" where
  "digits n =
     (if n < 10 then [''0123456789'' ! n]
      else digits (n div 10) @ [''0123456789'' ! (n mod 10)])"

definition decimal :: "int \<Rightarrow> string" where
  "decimal i = (if i < 0 then CHR ''-'' # digits (nat (- i)) else digits (nat i))"

fun c_format :: formatter where
  "c_format [] ap = Some []"
| "c_format [c] ap = (if c = CHR ''%'' then None else Some [c])"
| "c_format (c # d # m) ap =
     (if c \<noteq> CHR ''%'' then map_option ((#) c) (c_format (d # m) ap)
      else if d = CHR ''%'' then map_option ((#) d) (c_format m ap)
      else if d = CHR ''s'' then
        (case ap of
           Arg_string x # ap' \<Rightarrow> map_option ((@) (c_string x)) (c_format m ap')
         | _ \<Rightarrow> None)
      else if d = CHR ''c'' then
        (case ap of
           Arg_char x # ap' \<Rightarrow> map_option ((#) x) (c_format m ap')
         | _ \<Rightarrow> None)
      else if d = CHR ''d'' then
        (case ap of
           Arg_int x # ap' \<Rightarrow> map_option ((@) (decimal x)) (c_format m ap')
         | _ \<Rightarrow> None)
      else None)"

text \<open>
  The converter's contract in the words of the specification: the formatted message,
  truncated to what a 512-byte buffer holds, without one trailing newline.
\<close>

definition trimmed_message :: "string \<Rightarrow> string" where
  "trimmed_message out =
     (let m = take 511 (c_string out)
      in if m \<noteq> [] \<and> last m = newline then butlast m else m)"

section \<open>Parse session and callback bridge (tree_parser.cxx, src/unnamed/part_001)\<close>

text \<open>A pointer to a tree of the XML library: an address, or \<open>None\<close> for the null pointer.\<close>

type_synonym xmlDocPtr = "nat option"

text \<open>
  Modelled from the spec: the document handle, whose source file (document.cxx) is not
  among the sources. A fresh handle is the empty default document; \<open>set_doc_data\<close>
  makes the handle take the pointer it is given.
\<close>

datatype document = Empty_document | Holds xmlDocPtr

definition set_doc_data :: "xmlDocPtr \<Rightarrow> document \<Rightarrow> document" where
  "set_doc_data data d = Holds data"

text \<open>The entries of the handler table that the session sets, and what they point to.\<close>

datatype handler = Default_handler | Cb_tree_error | Cb_tree_warning | Cb_tree_ignore

record xmlSAXHandler =
  sax_warning :: handler
  sax_error :: handler
  sax_fatalError :: handler
  sax_ignorableWhitespace :: handler

text \<open>
  The fields of \<open>tree_impl\<close>, named as in the source without the trailing underscore.
\<close>

record tree_impl =
  doc :: document
  sax :: xmlSAXHandler
  last_error :: string
  warnings :: bool
  okay :: bool

definition DEFAULT_ERROR :: string where
  "DEFAULT_ERROR = ''unknown XML parsing error''"

text \<open>
  \<open>tree_impl::tree_impl()\<close>. The argument is the library's global
  \<open>xmlKeepBlanksDefaultValue\<close>.
\<close>

definition tree_impl_init :: "int \<Rightarrow> tree_impl" where
  "tree_impl_init xmlKeepBlanksDefaultValue =
     \<lparr>doc = Empty_document,
      sax = \<lparr>sax_warning = Cb_tree_warning,
              sax_error = Cb_tree_error,
              sax_fatalError = Cb_tree_error,
              sax_ignorableWhitespace =
                (if xmlKeepBlanksDefaultValue = 0 then Cb_tree_ignore else Default_handler)\<rparr>,
      last_error = DEFAULT_ERROR,
      warnings = False,
      okay = False\<rparr>"

text \<open>
  What a callback can reach through the parser context: the session behind
  \<open>_private\<close>, and whether \<open>xmlStopParser\<close> has been called on the context.
\<close>

record parse_state =
  session :: tree_impl
  stopped :: bool

text \<open>
  \<open>cb_tree_error(v, message, ...)\<close>. The flag says whether \<open>ctxt->_private\<close> points to
  the session (true) or is null (false). The body runs inside \<open>try ... catch (...)\<close>;
  no operation of this model throws, so the handler never fires.
\<close>

definition cb_tree_error ::
  "formatter \<Rightarrow> bool \<Rightarrow> string \<Rightarrow> fmt_arg list \<Rightarrow> parse_state \<Rightarrow> fault + parse_state" where
  "cb_tree_error fmt has_private message ap st =
     (if \<not> has_private then Inr st
      else
        (let p = (session st)\<lparr>okay := False\<rparr>
         in case printf2string fmt (last_error p) message ap of
              Inl f \<Rightarrow> Inl f
            | Inr s \<Rightarrow> Inr \<lparr>session = p\<lparr>last_error := s\<rparr>, stopped = True\<rparr>))"

text \<open>\<open>cb_tree_warning(v, const char*, ...)\<close>: the message has no name and is not read.\<close>

definition cb_tree_warning ::
  "bool \<Rightarrow> string \<Rightarrow> fmt_arg list \<Rightarrow> parse_state \<Rightarrow> parse_state" where
  "cb_tree_warning has_private message ap st =
     (if \<not> has_private then st
      else st\<lparr>session := (session st)\<lparr>warnings := True\<rparr>\<rparr>)"

definition cb_tree_ignore :: "parse_state \<Rightarrow> parse_state" where
  "cb_tree_ignore st = st"

text \<open>
  One call of the library into the handler table: the hook it uses, whether the context's
  back-pointer is set at that moment, and the message with its arguments.
\<close>

datatype sax_hook = Warning | Error | FatalError | IgnorableWhitespace

datatype sax_call = Sax_call sax_hook bool string "fmt_arg list"

fun hook_of :: "sax_call \<Rightarrow> sax_hook" where
  "hook_of (Sax_call h has_private message ap) = h"

fun handler_for :: "xmlSAXHandler \<Rightarrow> sax_hook \<Rightarrow> handler" where
  "handler_for table Warning = sax_warning table"
| "handler_for table Error = sax_error table"
| "handler_for table FatalError = sax_fatalError table"
| "handler_for table IgnorableWhitespace = sax_ignorableWhitespace table"

text \<open>The library's stock handlers do not touch the session.\<close>

fun invoke ::
  "formatter \<Rightarrow> handler \<Rightarrow> bool \<Rightarrow> string \<Rightarrow> fmt_arg list \<Rightarrow> parse_state \<Rightarrow> fault + parse_state" where
  "invoke fmt Default_handler has_private message ap st = Inr st"
| "invoke fmt Cb_tree_error has_private message ap st = cb_tree_error fmt has_private message ap st"
| "invoke fmt Cb_tree_warning has_private message ap st = Inr (cb_tree_warning has_private message ap st)"
| "invoke fmt Cb_tree_ignore has_private message ap st = Inr (cb_tree_ignore st)"

fun sax_dispatch :: "formatter \<Rightarrow> sax_call \<Rightarrow> parse_state \<Rightarrow> fault + parse_state" where
  "sax_dispatch fmt (Sax_call h has_private message ap) st =
     invoke fmt (handler_for (sax (session st)) h) has_private message ap st"

text \<open>
  The calls the library makes during one parse, in order. Stopping is best effort: the
  library may go on calling after \<open>xmlStopParser\<close>, so the list is not cut there.
\<close>

fun run_callbacks :: "formatter \<Rightarrow> sax_call list \<Rightarrow> parse_state \<Rightarrow> fault + parse_state" where
  "run_callbacks fmt [] st = Inr st"
| "run_callbacks fmt (c # cs) st =
     (case sax_dispatch fmt c st of
        Inl f \<Rightarrow> Inl f
      | Inr st' \<Rightarrow> run_callbacks fmt cs st')"

section \<open>Tree parser (tree_parser.cxx, src/unnamed/part_001)\<close>

datatype exception = Xml_exception string | Bad_alloc

text \<open>
  How a constructor ends: it returns the parser (its \<open>pimpl_\<close>), it throws, or a callback
  read outside the converter's buffer. Running out of memory in \<open>new\<close> or in a string
  operation is outside the model.
\<close>

datatype 'a outcome = Returned 'a | Raised exception | Faulted fault

record construction =
  result :: "tree_impl outcome"
  freed :: "nat list"

text \<open>
  What the library does in \<open>xmlSAXParseFileWithData\<close>: the calls into the handler table
  and the pointer it returns.
\<close>

record file_run =
  file_calls :: "sax_call list"
  file_doc :: xmlDocPtr

text \<open>
  What the library does for a memory buffer: whether \<open>xmlCreateMemoryParserCtxt\<close> gives
  a context, then for \<open>xmlParseDocument\<close> the calls, the context's \<open>wellFormed\<close> and
  \<open>myDoc\<close> fields afterwards and the return value.
\<close>

record memory_run =
  ctxt_created :: bool
  mem_calls :: "sax_call list"
  wellFormed :: bool
  retval :: int
  myDoc :: xmlDocPtr

text \<open>\<open>xmlFreeDoc\<close> ignores the null pointer.\<close>

definition xmlFreeDoc :: "xmlDocPtr \<Rightarrow> nat list" where
  "xmlFreeDoc d = (case d of None \<Rightarrow> [] | Some a \<Rightarrow> [a])"

definition failed_to_open :: "string \<Rightarrow> string" where
  "failed_to_open name = ''failed to open file '' @ [CHR 0x22] @ name @ [CHR 0x22]"

text \<open>
  \<open>tree_parser::tree_parser(const char *name, bool allow_exceptions)\<close>. \<open>lib\<close> is the
  library's run for a file name, \<open>fopen_r\<close> says whether \<open>fopen(name, "r")\<close> succeeds.
\<close>

definition tree_parser_file ::
  "formatter \<Rightarrow> int \<Rightarrow> (string \<Rightarrow> file_run) \<Rightarrow> (string \<Rightarrow> bool) \<Rightarrow> string \<Rightarrow> bool \<Rightarrow> construction" where
  "tree_parser_file fmt keep_blanks lib fopen_r name allow_exceptions =
     (let pimpl = (tree_impl_init keep_blanks)\<lparr>okay := True\<rparr>;
          run = lib name
      in case run_callbacks fmt (file_calls run) \<lparr>session = pimpl, stopped = False\<rparr> of
           Inl f \<Rightarrow> \<lparr>result = Faulted f, freed = []\<rparr>
         | Inr st \<Rightarrow>
             (let pimpl = session st;
                  tmpdoc = file_doc run
              in if tmpdoc \<noteq> None \<and> okay pimpl then
                   \<lparr>result = Returned (pimpl\<lparr>doc := set_doc_data tmpdoc (doc pimpl)\<rparr>),
                    freed = []\<rparr>
                 else
                   (let pimpl =
                          (if last_error pimpl = DEFAULT_ERROR then
                             (if \<not> fopen_r name then pimpl\<lparr>last_error := failed_to_open name\<rparr>
                              else pimpl)
                           else pimpl);
                        released = (if tmpdoc \<noteq> None then xmlFreeDoc tmpdoc else []);
                        pimpl = pimpl\<lparr>okay := False\<rparr>
                    in if allow_exceptions then
                         \<lparr>result = Raised (Xml_exception (last_error pimpl)), freed = released\<rparr>
                       else \<lparr>result = Returned pimpl, freed = released\<rparr>)))"

text \<open>\<open>tree_parser::tree_parser(const char *data, size_type size, bool allow_exceptions)\<close>.\<close>

definition tree_parser_memory ::
  "formatter \<Rightarrow> int \<Rightarrow> (string \<Rightarrow> nat \<Rightarrow> memory_run) \<Rightarrow> string \<Rightarrow> nat \<Rightarrow> bool \<Rightarrow> construction" where
  "tree_parser_memory fmt keep_blanks lib data n allow_exceptions =
     (let pimpl = tree_impl_init keep_blanks;
          run = lib data n
      in if \<not> ctxt_created run then \<lparr>result = Raised Bad_alloc, freed = []\<rparr>
         else
           (let pimpl = pimpl\<lparr>okay := True\<rparr>
            in case run_callbacks fmt (mem_calls run) \<lparr>session = pimpl, stopped = False\<rparr> of
                 Inl f \<Rightarrow> \<lparr>result = Faulted f, freed = []\<rparr>
               | Inr st \<Rightarrow>
                   (let pimpl = session st
                    in if \<not> wellFormed run \<or> retval run \<noteq> 0 \<or> \<not> okay pimpl then
                         (let released = xmlFreeDoc (myDoc run);
                              pimpl = pimpl\<lparr>okay := False\<rparr>
                          in if allow_exceptions then
                               \<lparr>result = Raised (Xml_exception (last_error pimpl)),
                                freed = released\<rparr>
                             else \<lparr>result = Returned pimpl, freed = released\<rparr>)
                       else
                         \<lparr>result =
                            Returned
                              (pimpl\<lparr>doc := set_doc_data (myDoc run) (doc pimpl), okay := True\<rparr>),
                          freed = []\<rparr>)))"

text \<open>The query surface: \<open>operator!\<close> (the spec's \<open>failed()\<close>) and the const getters.\<close>

definition operator_not :: "tree_impl \<Rightarrow> bool" where
  "operator_not p = (\<not> okay p)"

definition get_error_message :: "tree_impl \<Rightarrow> string" where
  "get_error_message p = last_error p"

definition had_warnings :: "tree_impl \<Rightarrow> bool" where
  "had_warnings p = warnings p"

definition get_document :: "tree_impl \<Rightarrow> document" where
  "get_document p = doc p"

text \<open>
  The session as the library's calls leave it, from the state in which both constructors
  start the parse (\<open>okay = true\<close>).
\<close>

definition session_after :: "formatter \<Rightarrow> int \<Rightarrow> sax_call list \<Rightarrow> fault + parse_state" where
  "session_after fmt keep_blanks calls =
     run_callbacks fmt calls
       \<lparr>session = (tree_impl_init keep_blanks)\<lparr>okay := True\<rparr>, stopped = False\<rparr>"

text \<open>
  The error text a caller gets to see: the parser's message after a return, the
  exception's message after a throw.
\<close>

fun error_text :: "tree_impl outcome \<Rightarrow> string option" where
  "error_text (Returned p) = Some (get_error_message p)"
| "error_text (Raised (Xml_exception m)) = Some m"
| "error_text (Raised Bad_alloc) = None"
| "error_text (Faulted f) = None"

text \<open>The error text of the session after the library's calls.\<close>

definition last_error_after :: "formatter \<Rightarrow> int \<Rightarrow> sax_call list \<Rightarrow> fault + string" where
  "last_error_after fmt keep_blanks calls =
     (case session_after fmt keep_blanks calls of
        Inl f \<Rightarrow> Inl f
      | Inr st \<Rightarrow> Inr (last_error (session st)))"

text \<open>
  The amended reading of the claim about the error text. A call qualifies when it goes
  to the error or fatal-error hook, has the back-pointer, and its message formats to a
  positive length; the text it stores is the trimmed message. After a list of calls the
  expected text is that of the last qualifying call, or the initial text without one.
\<close>

fun qualifying :: "formatter \<Rightarrow> sax_call \<Rightarrow> bool" where
  "qualifying fmt (Sax_call h has_private message ap) =
     ((h = Error \<or> h = FatalError) \<and> has_private \<and>
      (case fmt message ap of None \<Rightarrow> False | Some out \<Rightarrow> out \<noteq> []))"

fun stored_text :: "formatter \<Rightarrow> sax_call \<Rightarrow> string" where
  "stored_text fmt (Sax_call h has_private message ap) =
     (case fmt message ap of None \<Rightarrow> [] | Some out \<Rightarrow> trimmed_message out)"

definition last_qualifying_text :: "formatter \<Rightarrow> sax_call list \<Rightarrow> string \<Rightarrow> string" where
  "last_qualifying_text fmt calls initial =
     (case rev (filter (qualifying fmt) calls) of
        [] \<Rightarrow> initial
      | c # earlier \<Rightarrow> stored_text fmt c)"

section \<open>Library behaviours used as concrete inputs\<close>

definition fopen_fails :: "string \<Rightarrow> bool" where
  "fopen_fails name = False"

definition fopen_succeeds :: "string \<Rightarrow> bool" where
  "fopen_succeeds name = True"

text \<open>No file to read: no call, no tree.\<close>

definition lib_file_not_found :: "string \<Rightarrow> file_run" where
  "lib_file_not_found name = \<lparr>file_calls = [], file_doc = None\<rparr>"

text \<open>A well-formed file that draws one warning.\<close>

definition lib_file_with_warning :: "string \<Rightarrow> file_run" where
  "lib_file_with_warning name =
     \<lparr>file_calls = [Sax_call Warning True ''xmlns: URI %s is not absolute%c''
                      [Arg_string ''foo'', Arg_char newline]],
      file_doc = Some 1\<rparr>"

text \<open>A tree is returned although an error was reported on the way.\<close>

definition lib_file_late_error :: "string \<Rightarrow> file_run" where
  "lib_file_late_error name =
     \<lparr>file_calls = [Sax_call Error True ''Extra content at the end of the document%c''
                      [Arg_char newline]],
      file_doc = Some 1\<rparr>"

text \<open>The same, with an error whose text is the sentinel's.\<close>

definition lib_file_sentinel_error :: "string \<Rightarrow> file_run" where
  "lib_file_sentinel_error name =
     \<lparr>file_calls = [Sax_call Error True ''unknown XML parsing error'' []],
      file_doc = Some 1\<rparr>"

definition lib_memory_no_context :: "string \<Rightarrow> nat \<Rightarrow> memory_run" where
  "lib_memory_no_context data n =
     \<lparr>ctxt_created = False, mem_calls = [], wellFormed = False, retval = - 1, myDoc = None\<rparr>"

definition lib_memory_well_formed :: "string \<Rightarrow> nat \<Rightarrow> memory_run" where
  "lib_memory_well_formed data n =
     \<lparr>ctxt_created = True, mem_calls = [], wellFormed = True, retval = 0, myDoc = Some 2\<rparr>"

text \<open>A well-formed verdict with return value 0, and no document in the context.\<close>

definition lib_memory_no_document :: "string \<Rightarrow> nat \<Rightarrow> memory_run" where
  "lib_memory_no_document data n =
     \<lparr>ctxt_created = True, mem_calls = [], wellFormed = True, retval = 0, myDoc = None\<rparr>"

text \<open>A mismatched end tag: one fatal error, a partial tree in the context.\<close>

definition lib_memory_mismatched_tag :: "string \<Rightarrow> nat \<Rightarrow> memory_run" where
  "lib_memory_mismatched_tag data n =
     \<lparr>ctxt_created = True,
      mem_calls = [Sax_call FatalError True ''Opening and ending tag mismatch: %s line %d and %s%c''
                     [Arg_string ''b'', Arg_int 1, Arg_string ''a'', Arg_char newline]],
      wellFormed = False, retval = - 1, myDoc = Some 2\<rparr>"

text \<open>Two errors in a row: the library went on after the first.\<close>

definition two_errors :: "sax_call list" where
  "two_errors =
     [Sax_call Error True ''first error%c'' [Arg_char newline],
      Sax_call FatalError True ''second error%c'' [Arg_char newline]]"

section \<open>The converter, case by case\<close>

lemma c_string_take: "c_string (take n xs) = take n (c_string xs)"
  by (induction xs arbitrary: n) (auto simp: c_string_def take_Cons split: nat.splits)

lemma c_string_append_NUL: "c_string (w @ NUL # r) = c_string w"
  by (induction w) (auto simp: c_string_def)

lemma c_string_terminated: "NUL \<notin> set cs \<Longrightarrow> c_string (cs @ NUL # r) = cs"
  by (induction cs) (auto simp: c_string_def)

lemma c_string_prefix: "\<exists>r. w @ NUL # q = c_string w @ NUL # r"
  by (induction w) (auto simp: c_string_def)

lemma c_string_Nil_iff: "c_string out = [] \<longleftrightarrow> out = [] \<or> hd out = NUL"
  by (cases out) (auto simp: c_string_def)

lemma vsnprintf_buffer:
  assumes "fmt message ap = Some out"
  shows "vsnprintf fmt (replicate 512 NUL) 512 message ap =
           (take 511 out @ NUL # replicate (511 - length (take 511 out)) NUL, int (length out))"
  using assms by (simp add: vsnprintf_def Let_def)

lemma size_minus_one:
  assumes "0 < n" "n \<le> 511"
  shows "unat ((word_of_nat n :: 64 word) - 1) = n - 1"
proof -
  obtain m where n: "n = Suc m"
    using assms(1) by (cases n) auto
  have "(word_of_nat n :: 64 word) - 1 = word_of_nat m"
    by (simp add: n)
  moreover have "unat (word_of_nat m :: 64 word) = m"
    using assms(2) n by (simp add: unat_of_nat)
  ultimately show ?thesis by (simp add: n)
qed

lemma size_unat:
  assumes "n \<le> 511"
  shows "unat (word_of_nat n :: 64 word) = n"
  using assms by (simp add: unat_of_nat)

lemma body_nonempty:
  fixes cs r :: string
  assumes cs: "cs \<noteq> []" "length cs \<le> 511" "NUL \<notin> set cs"
  defines "buffer \<equiv> cs @ NUL # r"
  shows "(case strlen buffer of
              Inl f \<Rightarrow> Inl f
            | Inr sz \<Rightarrow>
                (case buffer_at buffer (sz - 1) of
                   Inl f \<Rightarrow> Inl f
                 | Inr c \<Rightarrow> assign buffer (if c = newline then sz - 1 else sz)))
         = Inr (if last cs = newline then butlast cs else cs)"
proof -
  have len: "0 < length cs" using cs by simp
  have cstr: "c_string buffer = cs"
    unfolding buffer_def using cs(3) by (rule c_string_terminated)
  have sl: "strlen buffer = Inr (word_of_nat (length cs))"
    by (simp add: strlen_def cstr) (simp add: buffer_def)
  have idx: "unat ((word_of_nat (length cs) :: 64 word) - 1) = length cs - 1"
    using size_minus_one [OF len cs(2)] .
  have rd: "buffer_at buffer (word_of_nat (length cs) - 1) = Inr (last cs)"
    using cs len by (simp add: buffer_at_def idx buffer_def nth_append last_conv_nth)
  have a1: "assign buffer (word_of_nat (length cs) - 1) = Inr (butlast cs)"
    using cs len by (simp add: assign_def idx buffer_def butlast_conv_take)
  have a2: "assign buffer (word_of_nat (length cs)) = Inr cs"
    using cs len by (simp add: assign_def size_unat buffer_def)
  show ?thesis
    by (simp add: sl rd a1 a2)
qed

lemma body_empty:
  "(case strlen (NUL # r) of
              Inl f \<Rightarrow> Inl f
            | Inr sz \<Rightarrow>
                (case buffer_at (NUL # r) (sz - 1) of
                   Inl f \<Rightarrow> Inl f
                 | Inr c \<Rightarrow> assign (NUL # r) (if c = newline then sz - 1 else sz)))
         = (if 2 ^ 64 - 1 < Suc (length r) then
              (if (NUL # r) ! (2 ^ 64 - 1) = newline then assign (NUL # r) (- 1) else assign (NUL # r) 0)
            else Inl (Out_of_bounds_read (2 ^ 64 - 1)))"
  by (simp add: strlen_def c_string_def buffer_at_def unsigned_minus_1_eq_mask mask_eq_exp_minus_1)


lemma c_string_no_NUL: "NUL \<notin> set (c_string w)"
  by (auto simp: c_string_def dest: set_takeWhileD)

lemma body_empty_512:
  assumes "length r = 511"
  shows "(case strlen (NUL # r) of
              Inl f \<Rightarrow> Inl f
            | Inr sz \<Rightarrow>
                (case buffer_at (NUL # r) (sz - 1) of
                   Inl f \<Rightarrow> Inl f
                 | Inr c \<Rightarrow> assign (NUL # r) (if c = newline then sz - 1 else sz)))
         = Inl (Out_of_bounds_read (2 ^ 64 - 1))"
  by (simp add: body_empty assms)

lemma printf2string_cases:
  "printf2string fmt s message ap =
     (case fmt message ap of
        None \<Rightarrow> Inr s
      | Some out \<Rightarrow>
          if out = [] then Inr s
          else if hd out = NUL then Inl (Out_of_bounds_read (2 ^ 64 - 1))
          else Inr (trimmed_message out))"
proof (cases "fmt message ap")
  case None
  then show ?thesis
    by (simp add: printf2string_def vsnprintf_def)
next
  case (Some out)
  let ?w = "take 511 out"
  define buffer where "buffer = ?w @ NUL # replicate (511 - length ?w) NUL"
  have run: "vsnprintf fmt (replicate 512 NUL) 512 message ap = (buffer, int (length out))"
    unfolding buffer_def using Some by (rule vsnprintf_buffer)
  have pf: "printf2string fmt s message ap =
      (if out \<noteq> [] then
         (case strlen buffer of
              Inl f \<Rightarrow> Inl f
            | Inr sz \<Rightarrow>
                (case buffer_at buffer (sz - 1) of
                   Inl f \<Rightarrow> Inl f
                 | Inr c \<Rightarrow> assign buffer (if c = newline then sz - 1 else sz)))
       else Inr s)"
    by (simp add: printf2string_def run)
  show ?thesis
  proof (cases "out = []")
    case True
    then show ?thesis
      using Some by (simp add: pf)
  next
    case nonempty: False
    then obtain c rest where out: "out = c # rest"
      by (cases out) auto
    show ?thesis
    proof (cases "c = NUL")
      case True
      define r where "r = take 510 rest @ NUL # replicate (511 - length ?w) NUL"
      have buf: "buffer = NUL # r"
        by (simp add: buffer_def r_def out True)
      have len: "length r = 511"
        by (simp add: r_def out)
      have "(case strlen buffer of
              Inl f \<Rightarrow> Inl f
            | Inr sz \<Rightarrow>
                (case buffer_at buffer (sz - 1) of
                   Inl f \<Rightarrow> Inl f
                 | Inr c \<Rightarrow> assign buffer (if c = newline then sz - 1 else sz))) = Inl (Out_of_bounds_read (2 ^ 64 - 1))"
        unfolding buf by (rule body_empty_512 [OF len])
      then show ?thesis
        using Some nonempty by (simp add: pf out True)
    next
      case False
      let ?cs = "c_string ?w"
      have cs_ne: "?cs \<noteq> []"
        using False by (simp add: out c_string_def)
      have cs_len: "length ?cs \<le> 511"
        by (simp add: c_string_take)
      obtain r where buf: "buffer = ?cs @ NUL # r"
        unfolding buffer_def using c_string_prefix [of ?w] by blast
      have tm: "trimmed_message out = (if last ?cs = newline then butlast ?cs else ?cs)"
        using cs_ne by (simp add: trimmed_message_def c_string_take Let_def)
      have hd: "hd out \<noteq> NUL"
        using False by (simp add: out)
      have "(case strlen buffer of
              Inl f \<Rightarrow> Inl f
            | Inr sz \<Rightarrow>
                (case buffer_at buffer (sz - 1) of
                   Inl f \<Rightarrow> Inl f
                 | Inr c \<Rightarrow> assign buffer (if c = newline then sz - 1 else sz))) = Inr (trimmed_message out)"
        unfolding buf tm by (rule body_nonempty [OF cs_ne cs_len c_string_no_NUL])
      then show ?thesis
        using Some nonempty hd by (simp add: pf)
    qed
  qed
qed

text \<open>
  Where the converter agrees with its contract: a message whose C string is not empty
  is stored trimmed, and an output of length zero or an error leaves the string alone.
\<close>

lemma printf2string_trimmed:
  assumes "fmt message ap = Some out" and "c_string out \<noteq> []"
  shows "printf2string fmt s message ap = Inr (trimmed_message out)"
  using assms by (auto simp: printf2string_cases c_string_Nil_iff)

lemma printf2string_unchanged:
  assumes "fmt message ap = None \<or> fmt message ap = Some []"
  shows "printf2string fmt s message ap = Inr s"
  using assms by (auto simp: printf2string_cases)

lemma percent_c_NUL: "c_format ''%c'' [Arg_char NUL] = Some [NUL]"
  by simp

lemma percent_c_NUL_buffer:
  "vsnprintf c_format (replicate 512 NUL) 512 ''%c'' [Arg_char NUL]
     = ([NUL, NUL] @ replicate 510 NUL, 1)"
  using vsnprintf_buffer [of c_format "''%c''" "[Arg_char NUL]" "[NUL]"] by simp

section \<open>The session under the library's calls\<close>

lemma cb_tree_error_keeps:
  assumes "cb_tree_error fmt has_private message ap st = Inr st'"
  shows "sax (session st') = sax (session st) \<and> doc (session st') = doc (session st)"
  using assms by (auto simp: cb_tree_error_def Let_def split: if_splits sum.splits)

lemma sax_dispatch_keeps:
  assumes "sax_dispatch fmt c st = Inr st'"
  shows "sax (session st') = sax (session st) \<and> doc (session st') = doc (session st)"
proof (cases c)
  case (Sax_call h has_private message ap)
  show ?thesis
  proof (cases "handler_for (sax (session st)) h")
    case Cb_tree_error
    then show ?thesis
      using assms Sax_call cb_tree_error_keeps by simp
  qed (use assms Sax_call in \<open>auto simp: cb_tree_warning_def cb_tree_ignore_def\<close>)
qed

lemma run_callbacks_keeps:
  assumes "run_callbacks fmt cs st = Inr st'"
  shows "sax (session st') = sax (session st) \<and> doc (session st') = doc (session st)"
  using assms
proof (induction cs arbitrary: st)
  case Nil
  then show ?case by simp
next
  case (Cons c cs)
  then obtain st1 where step: "sax_dispatch fmt c st = Inr st1"
    and rest: "run_callbacks fmt cs st1 = Inr st'"
    by (auto split: sum.splits)
  from Cons.IH [OF rest] sax_dispatch_keeps [OF step] show ?case by simp
qed

lemma run_callbacks_append:
  "run_callbacks fmt (cs @ ds) st =
     (case run_callbacks fmt cs st of Inl f \<Rightarrow> Inl f | Inr st' \<Rightarrow> run_callbacks fmt ds st')"
  by (induction cs arbitrary: st) (auto split: sum.splits)

lemma session_after_keeps:
  assumes "session_after fmt kb calls = Inr st"
  shows "doc (session st) = Empty_document" and "sax (session st) = sax (tree_impl_init kb)"
  using run_callbacks_keeps [OF assms [unfolded session_after_def]]
  by (simp_all add: tree_impl_init_def)

text \<open>Calls that are not error calls cannot fault and leave error text and flag alone.\<close>

lemma sax_dispatch_no_error:
  assumes "sax (session st) = sax (tree_impl_init kb)"
    and "hook_of c \<noteq> Error" and "hook_of c \<noteq> FatalError"
  shows "\<exists>st'. sax_dispatch fmt c st = Inr st' \<and>
           last_error (session st') = last_error (session st) \<and>
           okay (session st') = okay (session st) \<and>
           sax (session st') = sax (session st)"
proof (cases c)
  case (Sax_call h has_private message ap)
  with assms show ?thesis
    by (cases h)
       (auto simp: tree_impl_init_def cb_tree_warning_def cb_tree_ignore_def)
qed

lemma run_callbacks_no_error:
  assumes "sax (session st) = sax (tree_impl_init kb)"
    and "list_all (\<lambda>c. hook_of c \<noteq> Error \<and> hook_of c \<noteq> FatalError) cs"
  shows "\<exists>st'. run_callbacks fmt cs st = Inr st' \<and>
           last_error (session st') = last_error (session st) \<and>
           okay (session st') = okay (session st)"
  using assms
proof (induction cs arbitrary: st)
  case Nil
  then show ?case by simp
next
  case (Cons c cs)
  then obtain st1 where step: "sax_dispatch fmt c st = Inr st1"
    and same: "last_error (session st1) = last_error (session st)"
      "okay (session st1) = okay (session st)" "sax (session st1) = sax (session st)"
    using sax_dispatch_no_error [of st kb c fmt] by auto
  have "sax (session st1) = sax (tree_impl_init kb)"
    using same Cons.prems by simp
  moreover have "list_all (\<lambda>c. hook_of c \<noteq> Error \<and> hook_of c \<noteq> FatalError) cs"
    using Cons.prems by simp
  ultimately obtain st' where "run_callbacks fmt cs st1 = Inr st'"
    "last_error (session st') = last_error (session st1)"
    "okay (session st') = okay (session st1)"
    using Cons.IH by blast
  then show ?case
    using step same by simp
qed

lemma session_after_no_error:
  assumes "list_all (\<lambda>c. hook_of c \<noteq> Error \<and> hook_of c \<noteq> FatalError) calls"
  shows "\<exists>st. session_after fmt kb calls = Inr st \<and>
           last_error (session st) = DEFAULT_ERROR \<and> okay (session st)"
  using run_callbacks_no_error [OF _ assms,
      of "\<lparr>session = (tree_impl_init kb)\<lparr>okay := True\<rparr>, stopped = False\<rparr>" kb fmt]
  by (auto simp: session_after_def tree_impl_init_def)

text \<open>The error text after the calls is the text of the last qualifying call.\<close>

lemma cb_tree_error_text:
  assumes "cb_tree_error fmt has_private message ap st = Inr st'"
  shows "last_error (session st') =
           (if qualifying fmt (Sax_call Error has_private message ap)
            then stored_text fmt (Sax_call Error has_private message ap)
            else last_error (session st))"
proof (cases has_private)
  case False
  then show ?thesis
    using assms by (auto simp: cb_tree_error_def)
next
  case True
  show ?thesis
  proof (cases "fmt message ap")
    case None
    then show ?thesis
      using assms True by (auto simp: cb_tree_error_def printf2string_cases)
  next
    case (Some out)
    then show ?thesis
      using assms True
      by (auto simp: cb_tree_error_def printf2string_cases split: if_splits)
  qed
qed

lemma sax_dispatch_text:
  assumes "sax_dispatch fmt c st = Inr st'"
    and "sax (session st) = sax (tree_impl_init kb)"
  shows "last_error (session st') =
           (if qualifying fmt c then stored_text fmt c else last_error (session st))"
proof (cases c)
  case (Sax_call h has_private message ap)
  show ?thesis
  proof (cases h)
    case Warning
    then show ?thesis
      using assms Sax_call by (auto simp: tree_impl_init_def cb_tree_warning_def)
  next
    case Error
    then have "cb_tree_error fmt has_private message ap st = Inr st'"
      using assms Sax_call by (simp add: tree_impl_init_def)
    from cb_tree_error_text [OF this] show ?thesis
      using Sax_call Error by simp
  next
    case FatalError
    then have "cb_tree_error fmt has_private message ap st = Inr st'"
      using assms Sax_call by (simp add: tree_impl_init_def)
    from cb_tree_error_text [OF this] show ?thesis
      using Sax_call FatalError by simp
  next
    case IgnorableWhitespace
    then show ?thesis
      using assms Sax_call by (auto simp: tree_impl_init_def cb_tree_ignore_def split: if_splits)
  qed
qed

lemma last_qualifying_text_Cons:
  "last_qualifying_text fmt (c # cs) initial =
     last_qualifying_text fmt cs (if qualifying fmt c then stored_text fmt c else initial)"
  by (cases "rev (filter (qualifying fmt) cs)")
     (auto simp: last_qualifying_text_def split: list.splits)

lemma run_callbacks_text:
  assumes "run_callbacks fmt cs st = Inr st'"
    and "sax (session st) = sax (tree_impl_init kb)"
  shows "last_error (session st') = last_qualifying_text fmt cs (last_error (session st))"
  using assms
proof (induction cs arbitrary: st)
  case Nil
  then show ?case by (simp add: last_qualifying_text_def)
next
  case (Cons c cs)
  then obtain st1 where step: "sax_dispatch fmt c st = Inr st1"
    and rest: "run_callbacks fmt cs st1 = Inr st'"
    by (auto split: sum.splits)
  have table: "sax (session st1) = sax (tree_impl_init kb)"
    using sax_dispatch_keeps [OF step] Cons.prems(2) by simp
  have "last_error (session st') = last_qualifying_text fmt cs (last_error (session st1))"
    using Cons.IH [OF rest table] .
  then show ?case
    by (simp add: last_qualifying_text_Cons sax_dispatch_text [OF step Cons.prems(2)])
qed

section \<open>The constructors in terms of the session the library leaves\<close>

lemma tree_parser_file_fault:
  assumes "session_after fmt kb (file_calls (lib name)) = Inl f"
  shows "tree_parser_file fmt kb lib fopen_r name ae = \<lparr>result = Faulted f, freed = []\<rparr>"
  using assms by (simp add: tree_parser_file_def session_after_def Let_def)

lemma tree_parser_file_success:
  assumes "session_after fmt kb (file_calls (lib name)) = Inr st"
    and "file_doc (lib name) = Some t" and "okay (session st)"
  shows "tree_parser_file fmt kb lib fopen_r name ae =
           \<lparr>result = Returned ((session st)\<lparr>doc := Holds (Some t)\<rparr>), freed = []\<rparr>"
  using assms by (simp add: tree_parser_file_def session_after_def Let_def set_doc_data_def)

lemma tree_parser_file_failure:
  assumes "session_after fmt kb (file_calls (lib name)) = Inr st"
    and "file_doc (lib name) = None \<or> \<not> okay (session st)"
  shows "tree_parser_file fmt kb lib fopen_r name ae =
           (let p = (session st)
                  \<lparr>last_error :=
                     (if last_error (session st) = DEFAULT_ERROR \<and> \<not> fopen_r name
                      then failed_to_open name else last_error (session st)),
                   okay := False\<rparr>
            in \<lparr>result = (if ae then Raised (Xml_exception (last_error p)) else Returned p),
                freed = xmlFreeDoc (file_doc (lib name))\<rparr>)"
  using assms
  by (auto simp: tree_parser_file_def session_after_def Let_def xmlFreeDoc_def)

lemma tree_parser_memory_no_ctxt:
  assumes "\<not> ctxt_created (lib data n)"
  shows "tree_parser_memory fmt kb lib data n ae = \<lparr>result = Raised Bad_alloc, freed = []\<rparr>"
  using assms by (simp add: tree_parser_memory_def Let_def)

lemma tree_parser_memory_fault:
  assumes "ctxt_created (lib data n)"
    and "session_after fmt kb (mem_calls (lib data n)) = Inl f"
  shows "tree_parser_memory fmt kb lib data n ae = \<lparr>result = Faulted f, freed = []\<rparr>"
  using assms by (simp add: tree_parser_memory_def session_after_def Let_def)

lemma tree_parser_memory_success:
  assumes "ctxt_created (lib data n)"
    and "session_after fmt kb (mem_calls (lib data n)) = Inr st"
    and "wellFormed (lib data n)" and "retval (lib data n) = 0" and "okay (session st)"
  shows "tree_parser_memory fmt kb lib data n ae =
           \<lparr>result = Returned ((session st)\<lparr>doc := Holds (myDoc (lib data n)), okay := True\<rparr>),
            freed = []\<rparr>"
  using assms by (simp add: tree_parser_memory_def session_after_def Let_def set_doc_data_def)

lemma tree_parser_memory_failure:
  assumes "ctxt_created (lib data n)"
    and "session_after fmt kb (mem_calls (lib data n)) = Inr st"
    and "\<not> wellFormed (lib data n) \<or> retval (lib data n) \<noteq> 0 \<or> \<not> okay (session st)"
  shows "tree_parser_memory fmt kb lib data n ae =
           (let p = (session st)\<lparr>okay := False\<rparr>
            in \<lparr>result = (if ae then Raised (Xml_exception (last_error p)) else Returned p),
                freed = xmlFreeDoc (myDoc (lib data n))\<rparr>)"
  using assms
  by (auto simp: tree_parser_memory_def session_after_def Let_def)

text \<open>
  With the session the library leaves and a document in the context, a returned parser
  is in exactly one of two states, each tied to the verdict the constructor tests: success
  with the handle holding the library's tree, not freed, or failure with the empty
  default document.
\<close>

lemma outcome_exclusive_with_document:
  "(session_after fmt kb (file_calls (libf name)) = Inr st \<and>
    result (tree_parser_file fmt kb libf fopen_r name ae) = Returned p \<longrightarrow>
      ((\<not> operator_not p \<and> okay (session st) \<and>
        (\<exists>t. file_doc (libf name) = Some t \<and> get_document p = Holds (Some t) \<and>
             t \<notin> set (freed (tree_parser_file fmt kb libf fopen_r name ae))))
       \<noteq> (operator_not p \<and> get_document p = Empty_document \<and>
          (file_doc (libf name) = None \<or> \<not> okay (session st))))) \<and>
   (session_after fmt kb (mem_calls (libm data n)) = Inr st' \<and> myDoc (libm data n) \<noteq> None \<and>
    result (tree_parser_memory fmt kb libm data n ae) = Returned q \<longrightarrow>
      ((\<not> operator_not q \<and> wellFormed (libm data n) \<and> retval (libm data n) = 0 \<and>
        okay (session st') \<and>
        (\<exists>t. myDoc (libm data n) = Some t \<and> get_document q = Holds (Some t) \<and>
             t \<notin> set (freed (tree_parser_memory fmt kb libm data n ae))))
       \<noteq> (operator_not q \<and> get_document q = Empty_document \<and>
          (\<not> wellFormed (libm data n) \<or> retval (libm data n) \<noteq> 0 \<or> \<not> okay (session st')))))"
proof (intro conjI impI; elim conjE)
  assume st: "session_after fmt kb (file_calls (libf name)) = Inr st"
    and ret: "result (tree_parser_file fmt kb libf fopen_r name ae) = Returned p"
  note keeps = session_after_keeps(1) [OF st]
  show "(\<not> operator_not p \<and> okay (session st) \<and>
        (\<exists>t. file_doc (libf name) = Some t \<and> get_document p = Holds (Some t) \<and>
             t \<notin> set (freed (tree_parser_file fmt kb libf fopen_r name ae))))
       \<noteq> (operator_not p \<and> get_document p = Empty_document \<and>
          (file_doc (libf name) = None \<or> \<not> okay (session st)))"
  proof (cases "file_doc (libf name) = None \<or> \<not> okay (session st)")
    case True
    then show ?thesis
      using ret keeps
      by (auto simp: tree_parser_file_failure [where lib = libf and name = name, OF st]
          Let_def operator_not_def get_document_def split: if_splits)
  next
    case False
    then obtain t where t: "file_doc (libf name) = Some t" and ok: "okay (session st)"
      by auto
    show ?thesis
      using ret ok
      by (auto simp: tree_parser_file_success [where lib = libf and name = name, OF st t ok]
          operator_not_def get_document_def t)
  qed
next
  assume st: "session_after fmt kb (mem_calls (libm data n)) = Inr st'"
    and some: "myDoc (libm data n) \<noteq> None"
    and ret: "result (tree_parser_memory fmt kb libm data n ae) = Returned q"
  have created: "ctxt_created (libm data n)"
  proof (rule ccontr)
    assume "\<not> ctxt_created (libm data n)"
    then show False
      using ret by (simp add: tree_parser_memory_no_ctxt [where lib = libm])
  qed
  note keeps = session_after_keeps(1) [OF st]
  obtain t where t: "myDoc (libm data n) = Some t"
    using some by auto
  show "(\<not> operator_not q \<and> wellFormed (libm data n) \<and> retval (libm data n) = 0 \<and>
        okay (session st') \<and>
        (\<exists>t. myDoc (libm data n) = Some t \<and> get_document q = Holds (Some t) \<and>
             t \<notin> set (freed (tree_parser_memory fmt kb libm data n ae))))
       \<noteq> (operator_not q \<and> get_document q = Empty_document \<and>
          (\<not> wellFormed (libm data n) \<or> retval (libm data n) \<noteq> 0 \<or> \<not> okay (session st')))"
  proof (cases "\<not> wellFormed (libm data n) \<or> retval (libm data n) \<noteq> 0 \<or> \<not> okay (session st')")
    case True
    then show ?thesis
      using ret keeps
      by (auto simp: tree_parser_memory_failure [where lib = libm and data = data and n = n,
            OF created st]
          Let_def operator_not_def get_document_def split: if_splits)
  next
    case False
    then have wf: "wellFormed (libm data n)" and rv: "retval (libm data n) = 0"
      and ok: "okay (session st')"
      by auto
    show ?thesis
      using ret wf rv ok
      by (auto simp: tree_parser_memory_success [where lib = libm and data = data and n = n,
            OF created st wf rv ok]
          operator_not_def get_document_def t)
  qed
qed

section \<open>The concrete inputs, evaluated\<close>

lemmas eval_defs = session_after_def tree_impl_init_def cb_tree_error_def cb_tree_warning_def
  cb_tree_ignore_def printf2string_cases trimmed_message_def c_string_def NUL_def newline_def
  decimal_def Let_def

lemma mismatched_tag_session:
  "session_after c_format 1 (mem_calls (lib_memory_mismatched_tag data n)) =
     Inr \<lparr>session = (tree_impl_init 1)
             \<lparr>last_error := ''Opening and ending tag mismatch: b line 1 and a'', okay := False\<rparr>,
          stopped = True\<rparr>"
  by (simp add: lib_memory_mismatched_tag_def eval_defs)

lemma late_error_session:
  "session_after c_format 1 (file_calls (lib_file_late_error name)) =
     Inr \<lparr>session = (tree_impl_init 1)
             \<lparr>last_error := ''Extra content at the end of the document'', okay := False\<rparr>,
          stopped = True\<rparr>"
  by (simp add: lib_file_late_error_def eval_defs)

lemma sentinel_error_session:
  "session_after c_format 1 (file_calls (lib_file_sentinel_error name)) =
     Inr \<lparr>session = (tree_impl_init 1)\<lparr>last_error := DEFAULT_ERROR, okay := False\<rparr>,
          stopped = True\<rparr>"
  by (simp add: lib_file_sentinel_error_def DEFAULT_ERROR_def eval_defs)

lemma with_warning_session:
  "session_after c_format 1 (file_calls (lib_file_with_warning name)) =
     Inr \<lparr>session = (tree_impl_init 1)\<lparr>warnings := True, okay := True\<rparr>, stopped = False\<rparr>"
  by (simp add: lib_file_with_warning_def eval_defs)

lemma two_errors_session:
  "session_after c_format 1 two_errors =
     Inr \<lparr>session = (tree_impl_init 1)\<lparr>last_error := ''second error'', okay := False\<rparr>,
          stopped = True\<rparr>"
  by (simp add: two_errors_def eval_defs)



lemma with_warning_construction:
  "tree_parser_file c_format 1 lib_file_with_warning fopen_r name ae =
     \<lparr>result = Returned ((tree_impl_init 1)\<lparr>doc := Holds (Some 1), warnings := True, okay := True\<rparr>),
      freed = []\<rparr>"
  by (simp add: tree_parser_file_success [where lib = lib_file_with_warning,
        OF with_warning_session, where t = 1] lib_file_with_warning_def tree_impl_init_def)

lemma well_formed_construction:
  "tree_parser_memory c_format 1 lib_memory_well_formed data n ae =
     \<lparr>result = Returned ((tree_impl_init 1)\<lparr>doc := Holds (Some 2), okay := True\<rparr>), freed = []\<rparr>"
  by (simp add: tree_parser_memory_def lib_memory_well_formed_def tree_impl_init_def
      set_doc_data_def)

lemma late_error_construction:
  "tree_parser_file c_format 1 lib_file_late_error fopen_fails name ae =
     \<lparr>result =
        (if ae then Raised (Xml_exception ''Extra content at the end of the document'')
         else Returned ((tree_impl_init 1)
                \<lparr>last_error := ''Extra content at the end of the document''\<rparr>)),
      freed = [1]\<rparr>"
  by (simp add: tree_parser_file_failure [where lib = lib_file_late_error, OF late_error_session]
      Let_def DEFAULT_ERROR_def)
     (simp add: lib_file_late_error_def tree_impl_init_def xmlFreeDoc_def)

lemma mismatched_tag_construction:
  "tree_parser_memory c_format 1 lib_memory_mismatched_tag data n ae =
     \<lparr>result =
        (if ae then Raised (Xml_exception ''Opening and ending tag mismatch: b line 1 and a'')
         else Returned ((tree_impl_init 1)
                \<lparr>last_error := ''Opening and ending tag mismatch: b line 1 and a''\<rparr>)),
      freed = [2]\<rparr>"
  by (simp add: tree_parser_memory_failure [where lib = lib_memory_mismatched_tag,
        OF _ mismatched_tag_session]
      Let_def lib_memory_mismatched_tag_def xmlFreeDoc_def)
     (simp add: tree_impl_init_def)

section \<open>Claims about the converter\<close>

text \<open>
  C7. The converter should store the formatted message, cut to the buffer and without
  one trailing newline, and leave the string alone when formatting gives a length of
  zero or less. For the format \<open>%c\<close> with the NUL character as argument,
  \<open>vsnprintf\<close> returns 1, so the guard passes, while the message in the buffer is the
  empty C string: the converter neither stores the (empty) message nor leaves the
  string alone, it reads the byte before the buffer.
\<close>

theorem printf2string_leading_NUL:
  "snd (vsnprintf c_format (replicate 512 NUL) 512 ''%c'' [Arg_char NUL]) = 1 \<and>
   trimmed_message [NUL] = [] \<and>
   printf2string c_format ''unknown XML parsing error'' ''%c'' [Arg_char NUL]
     = Inl (Out_of_bounds_read 18446744073709551615)"
  by (simp add: percent_c_NUL_buffer printf2string_cases trimmed_message_def c_string_def)

text \<open>
  C9. Every index used to read the 512-byte buffer should be in bounds. On the same
  input the length of the C string in the buffer is 0, and the index of the read before
  the terminating NUL, \<open>size - 1\<close>, wraps around to \<open>2^64 - 1\<close>.
\<close>

theorem buffer_read_before_start:
  "strlen (fst (vsnprintf c_format (replicate 512 NUL) 512 ''%c'' [Arg_char NUL])) = Inr 0 \<and>
   buffer_at (fst (vsnprintf c_format (replicate 512 NUL) 512 ''%c'' [Arg_char NUL])) (0 - 1)
     = Inl (Out_of_bounds_read 18446744073709551615)"
  by (simp add: percent_c_NUL_buffer strlen_def buffer_at_def c_string_def
      unsigned_minus_1_eq_mask mask_eq_exp_minus_1)

section \<open>Claims about the callbacks and the constructors\<close>

text \<open>
  C8. The warning callback does nothing when the back-pointer is null; otherwise it sets
  the warning flag and nothing else: the message and its arguments play no part, and
  the error text, the success flag, the document, the handler table and the context's
  stop flag stay as they were.
\<close>

theorem cb_tree_warning_frame:
  "cb_tree_warning False message ap st = st \<and>
   cb_tree_warning True message ap st = st\<lparr>session := (session st)\<lparr>warnings := True\<rparr>\<rparr> \<and>
   cb_tree_warning True message ap st = cb_tree_warning True message' ap' st \<and>
   had_warnings (session (cb_tree_warning True message ap st)) \<and>
   last_error (session (cb_tree_warning True message ap st)) = last_error (session st) \<and>
   okay (session (cb_tree_warning True message ap st)) = okay (session st) \<and>
   doc (session (cb_tree_warning True message ap st)) = doc (session st) \<and>
   sax (session (cb_tree_warning True message ap st)) = sax (session st) \<and>
   stopped (cb_tree_warning True message ap st) = stopped st"
  by (simp add: cb_tree_warning_def had_warnings_def)

text \<open>
  C6. When the library gives no parsing context for the buffer, the memory-based
  constructor throws the allocation failure, with \<open>allow_exceptions\<close> true and false
  alike.
\<close>

theorem memory_context_failure_raises:
  assumes "\<not> ctxt_created (lib data n)"
  shows "result (tree_parser_memory fmt kb lib data n True) = Raised Bad_alloc \<and>
         result (tree_parser_memory fmt kb lib data n False) = Raised Bad_alloc"
  using assms by (simp add: tree_parser_memory_no_ctxt)

theorem memory_context_failure_raises_witness:
  "\<not> ctxt_created (lib_memory_no_context ''<a/>'' 4) \<and>
   result (tree_parser_memory c_format 1 lib_memory_no_context ''<a/>'' 4 True) = Raised Bad_alloc \<and>
   result (tree_parser_memory c_format 1 lib_memory_no_context ''<a/>'' 4 False) = Raised Bad_alloc"
  using memory_context_failure_raises [where lib = lib_memory_no_context and data = "''<a/>''"
      and n = 4 and fmt = c_format and kb = 1]
  by (simp add: lib_memory_no_context_def)

text \<open>
  C3. A file-based parse that fails (no tree, or the success flag cleared) while the
  error text still equals the sentinel ends with the text
  \<open>failed to open file "<name>"\<close> when the file cannot be opened for reading, and with
  the sentinel when it can. The caller sees the text in the parser or in the exception.
\<close>

theorem file_failure_diagnostic:
  assumes "session_after fmt kb (file_calls (lib name)) = Inr st"
    and "file_doc (lib name) = None \<or> \<not> okay (session st)"
    and "last_error (session st) = DEFAULT_ERROR"
  shows "error_text (result (tree_parser_file fmt kb lib fopen_r name ae)) =
           Some (if fopen_r name then ''unknown XML parsing error''
                 else ''failed to open file '' @ [CHR 0x22] @ name @ [CHR 0x22])"
  using assms(3)
  by (simp add: tree_parser_file_failure [where lib = lib and name = name, OF assms(1,2)]
      Let_def get_error_message_def failed_to_open_def DEFAULT_ERROR_def)

theorem file_failure_diagnostic_witness:
  "session_after c_format 1 (file_calls (lib_file_not_found ''missing.xml''))
     = Inr \<lparr>session = (tree_impl_init 1)\<lparr>okay := True\<rparr>, stopped = False\<rparr> \<and>
   file_doc (lib_file_not_found ''missing.xml'') = None \<and>
   last_error (session \<lparr>session = (tree_impl_init 1)\<lparr>okay := True\<rparr>, stopped = False\<rparr>)
     = DEFAULT_ERROR \<and>
   error_text (result (tree_parser_file c_format 1 lib_file_not_found fopen_fails ''missing.xml'' False))
     = Some (''failed to open file '' @ [CHR 0x22] @ ''missing.xml'' @ [CHR 0x22]) \<and>
   error_text (result (tree_parser_file c_format 1 lib_file_not_found fopen_succeeds ''missing.xml'' True))
     = Some ''unknown XML parsing error''"
  using file_failure_diagnostic [where fmt = c_format and kb = 1
      and lib = lib_file_not_found and name = "''missing.xml''"
      and st = "\<lparr>session = (tree_impl_init 1)\<lparr>okay := True\<rparr>, stopped = False\<rparr>"
      and fopen_r = fopen_fails and ae = False]
    file_failure_diagnostic [where fmt = c_format and kb = 1
      and lib = lib_file_not_found and name = "''missing.xml''"
      and st = "\<lparr>session = (tree_impl_init 1)\<lparr>okay := True\<rparr>, stopped = False\<rparr>"
      and fopen_r = fopen_succeeds and ae = True]
  by (simp add: session_after_def tree_impl_init_def lib_file_not_found_def fopen_fails_def
      fopen_succeeds_def)

text \<open>
  C1. A construction that completes should end in exactly one of two ways: success,
  with \<open>operator!\<close> false and the handle owning the parsed tree, or failure, with
  \<open>operator!\<close> true and no parsed tree in the handle. The file-based constructor tests
  the pointer the library returns (\<open>tmpdoc && okay_\<close>). The memory-based constructor
  tests the library's verdict only and hands \<open>ctxt->myDoc\<close> to the handle untested:
  when the library reports a well-formed document with return value 0 and no error
  callback cleared the flag, but the context holds no document, the constructor returns
  a parser that reports success while its handle holds the null pointer. That is
  neither of the two outcomes.
\<close>

theorem memory_success_without_document:
  assumes "ctxt_created (lib data n)"
    and "session_after fmt kb (mem_calls (lib data n)) = Inr st"
    and "wellFormed (lib data n)" and "retval (lib data n) = 0"
    and "okay (session st)"
    and "myDoc (lib data n) = None"
  shows "\<exists>q. result (tree_parser_memory fmt kb lib data n ae) = Returned q \<and>
           \<not> operator_not q \<and> get_document q = Holds None \<and>
           freed (tree_parser_memory fmt kb lib data n ae) = []"
  by (simp add: tree_parser_memory_success [where lib = lib, OF assms(1-5)] assms(6)
      operator_not_def get_document_def)

theorem memory_success_without_document_witness:
  "ctxt_created (lib_memory_no_document ''<a/>'' 4) \<and>
   session_after c_format 1 (mem_calls (lib_memory_no_document ''<a/>'' 4))
     = Inr \<lparr>session = (tree_impl_init 1)\<lparr>okay := True\<rparr>, stopped = False\<rparr> \<and>
   okay (session \<lparr>session = (tree_impl_init 1)\<lparr>okay := True\<rparr>, stopped = False\<rparr>) \<and>
   wellFormed (lib_memory_no_document ''<a/>'' 4) \<and>
   retval (lib_memory_no_document ''<a/>'' 4) = 0 \<and>
   myDoc (lib_memory_no_document ''<a/>'' 4) = None \<and>
   result (tree_parser_memory c_format 1 lib_memory_no_document ''<a/>'' 4 False)
     = Returned ((tree_impl_init 1)\<lparr>doc := Holds None, okay := True\<rparr>) \<and>
   \<not> operator_not ((tree_impl_init 1)\<lparr>doc := Holds None, okay := True\<rparr>) \<and>
   get_document ((tree_impl_init 1)\<lparr>doc := Holds None, okay := True\<rparr>) = Holds None \<and>
   result (tree_parser_file c_format 1 lib_file_not_found fopen_succeeds ''a.xml'' False)
     = Returned ((tree_impl_init 1)\<lparr>okay := False\<rparr>) \<and>
   operator_not ((tree_impl_init 1)\<lparr>okay := False\<rparr>) \<and>
   get_document ((tree_impl_init 1)\<lparr>okay := False\<rparr>) = Empty_document"
  using memory_success_without_document [where lib = lib_memory_no_document
      and data = "''<a/>''" and n = 4 and fmt = c_format and kb = 1 and ae = False
      and st = "\<lparr>session = (tree_impl_init 1)\<lparr>okay := True\<rparr>, stopped = False\<rparr>"]
  by (simp add: tree_parser_memory_def tree_parser_file_def lib_memory_no_document_def
      lib_file_not_found_def fopen_succeeds_def session_after_def tree_impl_init_def
      set_doc_data_def operator_not_def get_document_def xmlFreeDoc_def DEFAULT_ERROR_def)

text \<open>
  C2, as amended. When the library produces a tree but an error callback has cleared
  the success flag, both constructors treat the parse as failed: the tree is freed, the
  parser (when one is returned) reports failure and its handle stays the empty default
  document. The memory-based constructor keeps the recorded error text. The file-based
  constructor keeps it when it differs from the sentinel text or the file can be opened.
\<close>

theorem flagged_tree_discarded:
  "(session_after fmt kb (file_calls (libf name)) = Inr st \<and> \<not> okay (session st) \<and>
    file_doc (libf name) = Some t \<longrightarrow>
      freed (tree_parser_file fmt kb libf fopen_r name ae) = [t] \<and>
      (if ae then \<exists>m. result (tree_parser_file fmt kb libf fopen_r name ae) = Raised (Xml_exception m)
       else \<exists>p. result (tree_parser_file fmt kb libf fopen_r name ae) = Returned p \<and>
              operator_not p \<and> get_document p = Empty_document) \<and>
      (last_error (session st) \<noteq> DEFAULT_ERROR \<or> fopen_r name \<longrightarrow>
         error_text (result (tree_parser_file fmt kb libf fopen_r name ae))
           = Some (last_error (session st)))) \<and>
   (ctxt_created (libm data n) \<and> session_after fmt kb (mem_calls (libm data n)) = Inr st' \<and>
    \<not> okay (session st') \<and> myDoc (libm data n) = Some t' \<longrightarrow>
      freed (tree_parser_memory fmt kb libm data n ae) = [t'] \<and>
      (if ae then \<exists>m. result (tree_parser_memory fmt kb libm data n ae) = Raised (Xml_exception m)
       else \<exists>p. result (tree_parser_memory fmt kb libm data n ae) = Returned p \<and>
              operator_not p \<and> get_document p = Empty_document) \<and>
      error_text (result (tree_parser_memory fmt kb libm data n ae))
        = Some (last_error (session st')))"
proof (intro conjI impI; elim conjE)
  assume st: "session_after fmt kb (file_calls (libf name)) = Inr st"
    and flag: "\<not> okay (session st)" and t: "file_doc (libf name) = Some t"
  have bad: "file_doc (libf name) = None \<or> \<not> okay (session st)"
    using flag by simp
  note run = tree_parser_file_failure [where lib = libf and name = name, OF st bad]
  note keeps = session_after_keeps(1) [OF st]
  show "freed (tree_parser_file fmt kb libf fopen_r name ae) = [t]"
    by (simp add: run Let_def t xmlFreeDoc_def)
  show "if ae then \<exists>m. result (tree_parser_file fmt kb libf fopen_r name ae) = Raised (Xml_exception m)
       else \<exists>p. result (tree_parser_file fmt kb libf fopen_r name ae) = Returned p \<and>
              operator_not p \<and> get_document p = Empty_document"
    by (simp add: run Let_def operator_not_def get_document_def keeps)
  show "error_text (result (tree_parser_file fmt kb libf fopen_r name ae))
           = Some (last_error (session st))"
    if "last_error (session st) \<noteq> DEFAULT_ERROR \<or> fopen_r name"
    using that by (auto simp: run Let_def get_error_message_def)
next
  assume created: "ctxt_created (libm data n)"
    and st: "session_after fmt kb (mem_calls (libm data n)) = Inr st'"
    and flag: "\<not> okay (session st')" and t: "myDoc (libm data n) = Some t'"
  have bad: "\<not> wellFormed (libm data n) \<or> retval (libm data n) \<noteq> 0 \<or> \<not> okay (session st')"
    using flag by simp
  note run = tree_parser_memory_failure [where lib = libm and data = data and n = n,
      OF created st bad]
  note keeps = session_after_keeps(1) [OF st]
  show "freed (tree_parser_memory fmt kb libm data n ae) = [t']"
    by (simp add: run Let_def t xmlFreeDoc_def)
  show "if ae then \<exists>m. result (tree_parser_memory fmt kb libm data n ae) = Raised (Xml_exception m)
       else \<exists>p. result (tree_parser_memory fmt kb libm data n ae) = Returned p \<and>
              operator_not p \<and> get_document p = Empty_document"
    by (simp add: run Let_def operator_not_def get_document_def keeps)
  show "error_text (result (tree_parser_memory fmt kb libm data n ae))
        = Some (last_error (session st'))"
    by (simp add: run Let_def get_error_message_def)
qed

theorem flagged_tree_discarded_witness:
  "session_after c_format 1 (file_calls (lib_file_late_error ''late.xml''))
     = Inr \<lparr>session = (tree_impl_init 1)
             \<lparr>last_error := ''Extra content at the end of the document'', okay := False\<rparr>,
            stopped = True\<rparr> \<and>
   file_doc (lib_file_late_error ''late.xml'') = Some 1 \<and>
   freed (tree_parser_file c_format 1 lib_file_late_error fopen_fails ''late.xml'' False) = [1] \<and>
   result (tree_parser_file c_format 1 lib_file_late_error fopen_fails ''late.xml'' False)
     = Returned ((tree_impl_init 1)\<lparr>last_error := ''Extra content at the end of the document''\<rparr>) \<and>
   error_text (result (tree_parser_file c_format 1 lib_file_late_error fopen_fails ''late.xml'' False))
     = Some ''Extra content at the end of the document'' \<and>
   ctxt_created (lib_memory_mismatched_tag ''<a><b></a>'' 10) \<and>
   session_after c_format 1 (mem_calls (lib_memory_mismatched_tag ''<a><b></a>'' 10))
     = Inr \<lparr>session = (tree_impl_init 1)
             \<lparr>last_error := ''Opening and ending tag mismatch: b line 1 and a'', okay := False\<rparr>,
            stopped = True\<rparr> \<and>
   myDoc (lib_memory_mismatched_tag ''<a><b></a>'' 10) = Some 2 \<and>
   freed (tree_parser_memory c_format 1 lib_memory_mismatched_tag ''<a><b></a>'' 10 False) = [2] \<and>
   error_text (result (tree_parser_memory c_format 1 lib_memory_mismatched_tag ''<a><b></a>'' 10 False))
     = Some ''Opening and ending tag mismatch: b line 1 and a''"
  using flagged_tree_discarded [where fmt = c_format and kb = 1
      and libf = lib_file_late_error and name = "''late.xml''" and t = 1
      and st = "\<lparr>session = (tree_impl_init 1)
             \<lparr>last_error := ''Extra content at the end of the document'', okay := False\<rparr>,
            stopped = True\<rparr>"
      and fopen_r = fopen_fails and ae = False
      and libm = lib_memory_mismatched_tag and data = "''<a><b></a>''" and n = 10 and t' = 2
      and st' = "\<lparr>session = (tree_impl_init 1)
             \<lparr>last_error := ''Opening and ending tag mismatch: b line 1 and a'', okay := False\<rparr>,
            stopped = True\<rparr>"]
  by (simp add: late_error_session mismatched_tag_session late_error_construction
      mismatched_tag_construction get_error_message_def)
     (simp add: lib_file_late_error_def lib_memory_mismatched_tag_def)

text \<open>
  C2 as stated fails in the file-based constructor: an error callback records a text
  equal to the sentinel, the library still returns a tree, and the file cannot be opened
  by \<open>fopen\<close>. The secondary diagnostic then replaces the recorded text.
\<close>

theorem flagged_tree_error_text_replaced:
  "last_error_after c_format 1 (file_calls (lib_file_sentinel_error ''a.xml''))
     = Inr ''unknown XML parsing error'' \<and>
   file_doc (lib_file_sentinel_error ''a.xml'') = Some 1 \<and>
   result (tree_parser_file c_format 1 lib_file_sentinel_error fopen_fails ''a.xml'' False)
     = Returned ((tree_impl_init 1)
         \<lparr>last_error := ''failed to open file '' @ [CHR 0x22] @ ''a.xml'' @ [CHR 0x22]\<rparr>) \<and>
   error_text (result (tree_parser_file c_format 1 lib_file_sentinel_error fopen_fails ''a.xml'' False))
     \<noteq> Some ''unknown XML parsing error''"
  by (simp add: last_error_after_def sentinel_error_session
      tree_parser_file_failure [where lib = lib_file_sentinel_error and name = "''a.xml''",
        OF sentinel_error_session]
      DEFAULT_ERROR_def get_error_message_def failed_to_open_def fopen_fails_def)
     (simp add: lib_file_sentinel_error_def tree_impl_init_def xmlFreeDoc_def DEFAULT_ERROR_def)

text \<open>
  C4, as amended. The error text is overwritten by every error or fatal-error callback
  that has the back-pointer and whose message formats to a positive length, not by the
  first one only: after any initial part of the calls of a parse, and after all of
  them, it is the trimmed message of the last such callback so far, and the sentinel
  when there was none. Every other call (a warning, ignorable whitespace, an error
  callback with a null back-pointer, a message of length zero, a formatting error)
  leaves it as it is.
\<close>

theorem last_qualifying_error_wins:
  assumes "session_after fmt kb (before @ rest) = Inr st"
  shows "(\<exists>mid. session_after fmt kb before = Inr mid \<and>
            last_error (session mid) = last_qualifying_text fmt before DEFAULT_ERROR) \<and>
         last_error (session st) = last_qualifying_text fmt (before @ rest) DEFAULT_ERROR"
proof -
  let ?start = "\<lparr>session = (tree_impl_init kb)\<lparr>okay := True\<rparr>, stopped = False\<rparr>"
  have table: "sax (session ?start) = sax (tree_impl_init kb)"
    by (simp add: tree_impl_init_def)
  have initial: "last_error (session ?start) = DEFAULT_ERROR"
    by (simp add: tree_impl_init_def)
  have whole: "run_callbacks fmt (before @ rest) ?start = Inr st"
    using assms by (simp add: session_after_def)
  then obtain mid where mid: "run_callbacks fmt before ?start = Inr mid"
    by (auto simp: run_callbacks_append split: sum.splits)
  have "last_error (session mid) = last_qualifying_text fmt before DEFAULT_ERROR"
    using run_callbacks_text [OF mid table] initial by simp
  moreover have "last_error (session st) = last_qualifying_text fmt (before @ rest) DEFAULT_ERROR"
    using run_callbacks_text [OF whole table] initial by simp
  ultimately show ?thesis
    using mid by (simp add: session_after_def)
qed

theorem last_qualifying_error_wins_witness:
  "session_after c_format 1
     ([Sax_call Error True ''first error%c'' [Arg_char newline]] @
      [Sax_call FatalError True ''second error%c'' [Arg_char newline],
       Sax_call Error False ''third error'' [],
       Sax_call Error True ''%s'' [Arg_string []],
       Sax_call Warning True ''a warning'' []])
     = Inr \<lparr>session = (tree_impl_init 1)
               \<lparr>last_error := ''second error'', warnings := True, okay := False\<rparr>,
            stopped = True\<rparr> \<and>
   last_error_after c_format 1 [Sax_call Error True ''first error%c'' [Arg_char newline]]
     = Inr ''first error'' \<and>
   last_qualifying_text c_format [Sax_call Error True ''first error%c'' [Arg_char newline]]
       DEFAULT_ERROR = ''first error'' \<and>
   last_qualifying_text c_format
     ([Sax_call Error True ''first error%c'' [Arg_char newline]] @
      [Sax_call FatalError True ''second error%c'' [Arg_char newline],
       Sax_call Error False ''third error'' [],
       Sax_call Error True ''%s'' [Arg_string []],
       Sax_call Warning True ''a warning'' []]) DEFAULT_ERROR = ''second error''"
  using last_qualifying_error_wins [where fmt = c_format and kb = 1
      and before = "[Sax_call Error True ''first error%c'' [Arg_char newline]]"
      and rest = "[Sax_call FatalError True ''second error%c'' [Arg_char newline],
       Sax_call Error False ''third error'' [],
       Sax_call Error True ''%s'' [Arg_string []],
       Sax_call Warning True ''a warning'' []]"
      and st = "\<lparr>session = (tree_impl_init 1)
               \<lparr>last_error := ''second error'', warnings := True, okay := False\<rparr>,
            stopped = True\<rparr>"]
  by (simp add: last_error_after_def last_qualifying_text_def eval_defs)

text \<open>
  C4 as stated fails: when the library delivers a second error after the first, the
  error text changes again.
\<close>

theorem second_error_overwrites:
  "last_error_after c_format 1 [Sax_call Error True ''first error%c'' [Arg_char newline]]
     = Inr ''first error'' \<and>
   last_error_after c_format 1 two_errors = Inr ''second error''"
  by (simp add: last_error_after_def two_errors_def eval_defs)



text \<open>
  C10. When no error or fatal-error callback fired and the construction returned a
  parser that reports success, \<open>get_error_message\<close> is the sentinel text
  \<open>unknown XML parsing error\<close>. The getter is a const function of the parser, so
  asking again gives the same text.
\<close>

theorem success_without_error_keeps_sentinel:
  "(list_all (\<lambda>c. hook_of c \<noteq> Error \<and> hook_of c \<noteq> FatalError) (file_calls (libf name)) \<and>
    result (tree_parser_file fmt kb libf fopen_r name ae) = Returned p \<and> \<not> operator_not p
      \<longrightarrow> get_error_message p = ''unknown XML parsing error'') \<and>
   (list_all (\<lambda>c. hook_of c \<noteq> Error \<and> hook_of c \<noteq> FatalError) (mem_calls (libm data n)) \<and>
    result (tree_parser_memory fmt kb libm data n ae) = Returned q \<and> \<not> operator_not q
      \<longrightarrow> get_error_message q = ''unknown XML parsing error'')"
proof (intro conjI impI; elim conjE)
  assume calls: "list_all (\<lambda>c. hook_of c \<noteq> Error \<and> hook_of c \<noteq> FatalError) (file_calls (libf name))"
    and ret: "result (tree_parser_file fmt kb libf fopen_r name ae) = Returned p"
    and ok: "\<not> operator_not p"
  obtain st where st: "session_after fmt kb (file_calls (libf name)) = Inr st"
    "last_error (session st) = DEFAULT_ERROR" "okay (session st)"
    using session_after_no_error [OF calls] by blast
  show "get_error_message p = ''unknown XML parsing error''"
  proof (cases "file_doc (libf name)")
    case None
    then show ?thesis
      using ret ok st
      by (auto simp: tree_parser_file_failure [where lib = libf and name = name, OF st(1)]
          Let_def operator_not_def split: if_splits)
  next
    case (Some t)
    then show ?thesis
      using ret st
      by (auto simp: tree_parser_file_success [where lib = libf and name = name, OF st(1) Some st(3)]
          get_error_message_def DEFAULT_ERROR_def)
  qed
next
  assume calls: "list_all (\<lambda>c. hook_of c \<noteq> Error \<and> hook_of c \<noteq> FatalError) (mem_calls (libm data n))"
    and ret: "result (tree_parser_memory fmt kb libm data n ae) = Returned q"
    and ok: "\<not> operator_not q"
  obtain st where st: "session_after fmt kb (mem_calls (libm data n)) = Inr st"
    "last_error (session st) = DEFAULT_ERROR" "okay (session st)"
    using session_after_no_error [OF calls] by blast
  have created: "ctxt_created (libm data n)"
  proof (rule ccontr)
    assume "\<not> ctxt_created (libm data n)"
    then show False
      using ret by (simp add: tree_parser_memory_no_ctxt [where lib = libm])
  qed
  show "get_error_message q = ''unknown XML parsing error''"
  proof (cases "wellFormed (libm data n) \<and> retval (libm data n) = 0")
    case True
    then show ?thesis
      using ret st
      by (auto simp: tree_parser_memory_success [where lib = libm and data = data and n = n,
            OF created st(1) _ _ st(3)]
          get_error_message_def DEFAULT_ERROR_def)
  next
    case False
    then have "\<not> wellFormed (libm data n) \<or> retval (libm data n) \<noteq> 0 \<or> \<not> okay (session st)"
      by blast
    then show ?thesis
      using ret ok
      by (auto simp: tree_parser_memory_failure [where lib = libm and data = data and n = n,
            OF created st(1)]
          Let_def operator_not_def split: if_splits)
  qed
qed

theorem success_without_error_keeps_sentinel_witness:
  "list_all (\<lambda>c. hook_of c \<noteq> Error \<and> hook_of c \<noteq> FatalError)
     (file_calls (lib_file_with_warning ''a.xml'')) \<and>
   result (tree_parser_file c_format 1 lib_file_with_warning fopen_succeeds ''a.xml'' True)
     = Returned ((tree_impl_init 1)\<lparr>doc := Holds (Some 1), warnings := True, okay := True\<rparr>) \<and>
   \<not> operator_not ((tree_impl_init 1)\<lparr>doc := Holds (Some 1), warnings := True, okay := True\<rparr>) \<and>
   get_error_message ((tree_impl_init 1)\<lparr>doc := Holds (Some 1), warnings := True, okay := True\<rparr>)
     = ''unknown XML parsing error'' \<and>
   list_all (\<lambda>c. hook_of c \<noteq> Error \<and> hook_of c \<noteq> FatalError)
     (mem_calls (lib_memory_well_formed ''<a><b/></a>'' 11)) \<and>
   result (tree_parser_memory c_format 1 lib_memory_well_formed ''<a><b/></a>'' 11 True)
     = Returned ((tree_impl_init 1)\<lparr>doc := Holds (Some 2), okay := True\<rparr>) \<and>
   \<not> operator_not ((tree_impl_init 1)\<lparr>doc := Holds (Some 2), okay := True\<rparr>) \<and>
   get_error_message ((tree_impl_init 1)\<lparr>doc := Holds (Some 2), okay := True\<rparr>)
     = ''unknown XML parsing error''"
  using success_without_error_keeps_sentinel [where fmt = c_format and kb = 1
      and libf = lib_file_with_warning and fopen_r = fopen_succeeds and name = "''a.xml''"
      and ae = True
      and p = "(tree_impl_init 1)\<lparr>doc := Holds (Some 1), warnings := True, okay := True\<rparr>"
      and libm = lib_memory_well_formed and data = "''<a><b/></a>''" and n = 11
      and q = "(tree_impl_init 1)\<lparr>doc := Holds (Some 2), okay := True\<rparr>"]
  by (simp add: with_warning_construction well_formed_construction operator_not_def)
     (simp add: lib_file_with_warning_def lib_memory_well_formed_def)

end
